theory Spec2Isabelle
  imports Main "HOL-Library.AList"
begin

section \<open>JavaScript values\<close>

text \<open>
  The values that flow through the middleware: primitives, plain data objects and
  \<open>Error\<close> instances. A plain object is the list of its own enumerable properties
  in insertion order; a key is read at its first entry. \<open>JError name message ps\<close> is
  an \<open>Error\<close> instance whose further own enumerable properties (those assigned
  after construction, such as \<open>unauthorized\<close>) are \<open>ps\<close>. \<open>JNum\<close> holds the
  integer-valued numbers; their decimal printing is the one of JavaScript for integers
  of magnitude below \<open>10^21\<close>. Properties hold data, never functions: the functions
  the middleware receives (\<open>next\<close>, \<open>getAuthToken\<close>, \<open>fetch\<close>) are HOL functions.
\<close>

datatype jsval =
    JUndefined
  | JNull
  | JBool bool
  | JNum int
  | JStr string
  | JObj "(string \<times> jsval) list"
  | JError string string "(string \<times> jsval) list"

text \<open>
  What a \<open>throw\<close> raises: the engine's \<open>TypeError\<close> (reading a property of
  \<open>null\<close> or \<open>undefined\<close>, calling what is not a function; its message is
  engine-specific and left out), or an \<open>Error\<close> the source constructs itself.
\<close>

datatype exn = TypeError | Error string

definition and_then :: "exn + 'a \<Rightarrow> ('a \<Rightarrow> exn + 'b) \<Rightarrow> exn + 'b" where
  "and_then m f = (case m of Inl e \<Rightarrow> Inl e | Inr v \<Rightarrow> f v)"

fun typeof :: "jsval \<Rightarrow> string" where
  "typeof JUndefined = ''undefined''"
| "typeof JNull = ''object''"
| "typeof (JBool b) = ''boolean''"
| "typeof (JNum n) = ''number''"
| "typeof (JStr s) = ''string''"
| "typeof (JObj ps) = ''object''"
| "typeof (JError n m ps) = ''object''"

fun truthy :: "jsval \<Rightarrow> bool" where
  "truthy JUndefined = False"
| "truthy JNull = False"
| "truthy (JBool b) = b"
| "truthy (JNum n) = (n \<noteq> 0)"
| "truthy (JStr s) = (s \<noteq> [])"
| "truthy (JObj ps) = True"
| "truthy (JError n m ps) = True"

fun nullish :: "jsval \<Rightarrow> bool" where
  "nullish JUndefined = True"
| "nullish JNull = True"
| "nullish v = False"

text \<open>A default value of a parameter or of a destructured field applies to \<open>undefined\<close> only.\<close>

fun or_default :: "jsval \<Rightarrow> jsval \<Rightarrow> jsval" where
  "or_default JUndefined d = d"
| "or_default v d = v"

subsection \<open>Printing numbers\<close>

definition digit_char :: "nat \<Rightarrow> char" where
  "digit_char n = char_of (48 + n)"

function show_nat :: "nat \<Rightarrow> string" where
  "show_nat n = (if n < 10 then [digit_char n] else show_nat (n div 10) @ [digit_char (n mod 10)])"
  by pat_completeness auto
termination
  by (relation "measure id") auto

definition show_int :: "int \<Rightarrow> string" where
  "show_int i = (if i < 0 then CHR ''-'' # show_nat (nat (- i)) else show_nat (nat i))"

subsection \<open>Properties\<close>

definition lookup :: "(string \<times> jsval) list \<Rightarrow> string \<Rightarrow> jsval" where
  "lookup ps k = (case map_of ps k of None \<Rightarrow> JUndefined | Some v \<Rightarrow> v)"

text \<open>
  The own enumerable properties of a value, as an object spread copies them: those of
  an object, the indexed characters of a string, none of any other primitive. The
  \<open>message\<close> of an \<open>Error\<close> is not enumerable. \<open>own_props\<close> names each key
  once, at its first entry, as a read does.
\<close>

fun enumerable :: "jsval \<Rightarrow> (string \<times> jsval) list" where
  "enumerable (JObj ps) = ps"
| "enumerable (JError n m ps) = ps"
| "enumerable (JStr s) = zip (map show_nat [0..<length s]) (map (\<lambda>c. JStr [c]) s)"
| "enumerable v = []"

definition own_props :: "jsval \<Rightarrow> (string \<times> jsval) list" where
  "own_props v = AList.clearjunk (enumerable v)"

text \<open>
  \<open>v.k\<close> for a value that is neither \<open>null\<close> nor \<open>undefined\<close>, at the property
  names the program reads (none of them is a member of a built-in prototype).
\<close>

fun dot :: "jsval \<Rightarrow> string \<Rightarrow> jsval" where
  "dot (JObj ps) k = lookup ps k"
| "dot (JError n m ps) k =
     (if k = ''name'' then JStr n else if k = ''message'' then JStr m else lookup ps k)"
| "dot v k = lookup (enumerable v) k"

definition get_prop :: "jsval \<Rightarrow> string \<Rightarrow> exn + jsval" where
  "get_prop v k = (if nullish v then Inl TypeError else Inr (dot v k))"

subsection \<open>Object literals\<close>

text \<open>
  An object literal is built left to right: \<open>k: v\<close> sets a key (in place when the key is
  already there), \<open>...src\<close> sets every own enumerable property of \<open>src\<close> in turn.
  The list keeps the order of insertion, also for the integer-like keys that JavaScript
  enumerates first: a read by key does not see the order, and no statement below is about
  it.
\<close>

datatype item = Field string jsval | Spread jsval

fun add_item :: "(string \<times> jsval) list \<Rightarrow> item \<Rightarrow> (string \<times> jsval) list" where
  "add_item ps (Field k v) = AList.update k v ps"
| "add_item ps (Spread src) = fold (\<lambda>(k, v). AList.update k v) (own_props src) ps"

definition object_literal :: "item list \<Rightarrow> (string \<times> jsval) list" where
  "object_literal items = foldl add_item [] items"

subsection \<open>Conversion to strings\<close>

text \<open>
  \<open>ToString\<close> is the conversion a template literal applies to each substitution. An
  object is printed by the \<open>toString\<close> it inherits; an own data property of that name
  hides the inherited method and is not callable, and neither it nor \<open>valueOf\<close> then
  yields a primitive.
\<close>

fun ToString :: "jsval \<Rightarrow> exn + string" where
  "ToString JUndefined = Inr ''undefined''"
| "ToString JNull = Inr ''null''"
| "ToString (JBool b) = Inr (if b then ''true'' else ''false'')"
| "ToString (JNum n) = Inr (show_int n)"
| "ToString (JStr s) = Inr s"
| "ToString (JObj ps) =
     (if ''toString'' \<in> set (map fst ps) then Inl TypeError else Inr ''[object Object]'')"
| "ToString (JError n m ps) =
     (if ''toString'' \<in> set (map fst ps) then Inl TypeError
      else Inr (if n = [] then m else if m = [] then n else n @ '': '' @ m))"

text \<open>The method call \<open>v.toString()\<close>.\<close>

definition toString :: "jsval \<Rightarrow> exn + jsval" where
  "toString v = (if nullish v then Inl TypeError else and_then (ToString v) (\<lambda>s. Inr (JStr s)))"

fun template :: "jsval list \<Rightarrow> exn + string" where
  "template [] = Inr []"
| "template (v # vs) = and_then (ToString v) (\<lambda>s. and_then (template vs) (\<lambda>r. Inr (s @ r)))"

subsection \<open>\<open>JSON.stringify\<close>\<close>

definition hex_digit :: "nat \<Rightarrow> char" where
  "hex_digit n = (if n < 10 then char_of (48 + n) else char_of (87 + n))"

definition escape_char :: "char \<Rightarrow> string" where
  "escape_char c =
     (let n = (of_char c :: nat) in
      if n = 34 then [CHR 0x5C, CHR 0x22]
      else if n = 92 then [CHR 0x5C, CHR 0x5C]
      else if n = 8 then [CHR 0x5C, CHR ''b'']
      else if n = 9 then [CHR 0x5C, CHR ''t'']
      else if n = 10 then [CHR 0x5C, CHR ''n'']
      else if n = 12 then [CHR 0x5C, CHR ''f'']
      else if n = 13 then [CHR 0x5C, CHR ''r'']
      else if n < 32 then [CHR 0x5C, CHR ''u'', CHR ''0'', CHR ''0'', hex_digit (n div 16), hex_digit (n mod 16)]
      else [c])"

definition quote :: "string \<Rightarrow> string" where
  "quote s = CHR 0x22 # concat (map escape_char s) @ [CHR 0x22]"

fun members :: "(string \<times> string option) list \<Rightarrow> string list" where
  "members [] = []"
| "members ((k, None) # ps) = members ps"
| "members ((k, Some s) # ps) = (quote k @ '':'' @ s) # members ps"

fun commas :: "string list \<Rightarrow> string" where
  "commas [] = []"
| "commas [s] = s"
| "commas (s # t # ss) = s @ '','' @ commas (t # ss)"

text \<open>
  The text of a value; \<open>None\<close> where \<open>JSON.stringify\<close> leaves the value out. The
  fields of an object are printed in the order of its list.
\<close>

fun JSON_text :: "jsval \<Rightarrow> string option" where
  "JSON_text JUndefined = None"
| "JSON_text JNull = Some ''null''"
| "JSON_text (JBool b) = Some (if b then ''true'' else ''false'')"
| "JSON_text (JNum n) = Some (show_int n)"
| "JSON_text (JStr s) = Some (quote s)"
| "JSON_text (JObj ps) =
     Some (''{'' @ commas (members (map (\<lambda>(k, v). (k, JSON_text v)) ps)) @ ''}'')"
| "JSON_text (JError n m ps) =
     Some (''{'' @ commas (members (map (\<lambda>(k, v). (k, JSON_text v)) ps)) @ ''}'')"

definition JSON_stringify :: "jsval \<Rightarrow> jsval" where
  "JSON_stringify v = (case JSON_text v of None \<Rightarrow> JUndefined | Some s \<Rightarrow> JStr s)"

section \<open>The transport helper (\<open>apiClient.js\<close>)\<close>

text \<open>
  A promise is modelled by what it settles with. \<open>fetch\<close> belongs to the platform: it
  is a parameter, which answers a request with a rejection or with a response, and
  \<open>json\<close> is what \<open>response.json()\<close> settles with.
\<close>

datatype 'a settled = Resolved 'a | Rejected jsval

record response =
  status :: int
  json :: "jsval settled"

type_synonym fetch = "jsval \<Rightarrow> jsval \<Rightarrow> response settled"

definition handleSuccessfulResponse :: "response \<Rightarrow> jsval settled" where
  "handleSuccessfulResponse response = json response"

definition handleUnauthorizedResponse :: "jsval settled" where
  "handleUnauthorizedResponse =
     Rejected (JError ''Error'' ''401 - Unauthorized'' [(''unauthorized'', JBool True)])"

definition handleErrorResponse :: "response \<Rightarrow> jsval settled" where
  "handleErrorResponse response =
     (case json response of Resolved res \<Rightarrow> Rejected res | Rejected e \<Rightarrow> Rejected e)"

text \<open>The \<open>params\<close> that \<open>callApi(url, body, method, options)\<close> hands to \<open>fetch\<close>.\<close>

definition callApi_params :: "jsval \<Rightarrow> jsval \<Rightarrow> jsval \<Rightarrow> jsval" where
  "callApi_params body method0 options0 =
     (let method = or_default method0 (JStr ''GET'');
          options = or_default options0 (JObj []);
          params = object_literal [Spread options, Field ''method'' method]
      in if method = JStr ''POST'' then
           (let params1 = AList.update ''body'' (if truthy body then JSON_stringify body else body) params;
                headers = object_literal [Spread (lookup params1 ''headers''),
                                          Field ''Content-Type'' (JStr ''application/json;'')]
            in JObj (AList.update ''headers'' (JObj headers) params1))
         else JObj params)"

definition callApi :: "fetch \<Rightarrow> jsval \<Rightarrow> jsval \<Rightarrow> jsval \<Rightarrow> jsval \<Rightarrow> jsval settled" where
  "callApi fetch url body method options =
     (case fetch url (callApi_params body method options) of
        Rejected e \<Rightarrow> Rejected e
      | Resolved response \<Rightarrow>
          if 200 \<le> status response \<and> status response < 300 then handleSuccessfulResponse response
          else if status response = 401 then handleUnauthorizedResponse
          else handleErrorResponse response)"

section \<open>The middleware (\<open>apiMiddleware.js\<close>)\<close>

definition API_CALL :: string where
  "API_CALL = ''API_CALL''"

text \<open>
  The configuration: \<open>getAuthToken\<close> is a function of the store, or is absent
  (\<open>undefined\<close> in \<open>defaultConfig\<close>, \<open>null\<close> in \<open>defaultPrefs\<close>).
\<close>

record 'st config =
  getAuthToken :: "('st \<Rightarrow> jsval) option"

definition defaultConfig :: "'st config" where
  "defaultConfig = \<lparr>getAuthToken = None\<rparr>"

definition apiActionType :: jsval where
  "apiActionType =
     JObj [(''SUCCESS'', JStr ''SUCCESS''), (''ERROR'', JStr ''ERROR''), (''LOADING'', JStr ''LOADING'')]"

definition createApiActionSet :: "jsval \<Rightarrow> exn + jsval" where
  "createApiActionSet actionName =
     and_then (template [actionName, JStr ''_'', dot apiActionType ''LOADING'']) (\<lambda>loading.
     and_then (template [actionName, JStr ''_'', dot apiActionType ''SUCCESS'']) (\<lambda>success.
     and_then (template [actionName, JStr ''_'', dot apiActionType ''ERROR'']) (\<lambda>error.
     Inr (JObj (object_literal
       [Field ''LOADING'' (JStr loading),
        Field ''SUCCESS'' (JStr success),
        Field ''ERROR'' (JStr error),
        Field ''actionName'' actionName])))))"

definition createSuccessAction :: "jsval \<Rightarrow> jsval \<Rightarrow> jsval \<Rightarrow> exn + jsval" where
  "createSuccessAction actions response meta =
     and_then (get_prop actions ''SUCCESS'') (\<lambda>type.
     and_then (get_prop actions ''actionName'') (\<lambda>actionName.
     Inr (JObj (object_literal
       [Field ''type'' type,
        Field ''apiActionType'' (dot apiActionType ''SUCCESS''),
        Field ''actionName'' actionName,
        Field ''response'' response,
        Spread meta]))))"

definition createErrorAction :: "jsval \<Rightarrow> jsval \<Rightarrow> jsval \<Rightarrow> exn + jsval" where
  "createErrorAction actions error meta =
     and_then (get_prop actions ''ERROR'') (\<lambda>type.
     and_then (toString error) (\<lambda>text.
     and_then (get_prop actions ''actionName'') (\<lambda>actionName.
     Inr (JObj (object_literal
       [Field ''type'' type,
        Field ''apiActionType'' (dot apiActionType ''ERROR''),
        Field ''rawError'' error,
        Field ''error'' text,
        Field ''actionName'' actionName,
        Spread meta])))))"

definition createLoadingAction :: "jsval \<Rightarrow> jsval \<Rightarrow> exn + jsval" where
  "createLoadingAction actions meta =
     and_then (get_prop actions ''LOADING'') (\<lambda>type.
     and_then (get_prop actions ''actionName'') (\<lambda>actionName.
     Inr (JObj (object_literal
       [Field ''type'' type,
        Field ''apiActionType'' (dot apiActionType ''LOADING''),
        Field ''actionName'' actionName,
        Spread meta]))))"

text \<open>
  The second copy of the module builds the error message from the type itself, not
  from the Action Set, and does not echo \<open>actionName\<close>.
\<close>

definition createErrorAction_of_type :: "jsval \<Rightarrow> jsval \<Rightarrow> jsval \<Rightarrow> exn + jsval" where
  "createErrorAction_of_type action error meta =
     and_then (toString error) (\<lambda>text.
     Inr (JObj (object_literal
       [Field ''type'' action,
        Field ''apiActionType'' (dot apiActionType ''ERROR''),
        Field ''rawError'' error,
        Field ''error'' text,
        Spread meta])))"

text \<open>
  What the middleware does to the world, in order: a message handed to \<open>next\<close>, a call
  of the transport helper with its four arguments. \<open>next\<close> and \<open>getAuthToken\<close> are
  taken to return: they are functions of the host application.
\<close>

datatype event = Next jsval | CallApi jsval jsval jsval jsval

text \<open>
  The promise the middleware returns settles later: \<open>Promise es out\<close> carries the
  events \<open>es\<close> of that later moment and the settlement, fulfilled with a value or
  rejected by what a handler threw.
\<close>

datatype outcome = Fulfilled jsval | Failed exn

datatype ret = Value jsval | Promise "event list" outcome

text \<open>Lines 63 to 73: the options handed to the transport helper.\<close>

definition apiOptions :: "'st config \<Rightarrow> 'st \<Rightarrow> jsval \<Rightarrow> jsval \<Rightarrow> exn + jsval" where
  "apiOptions config store options authenticated =
     (let opts = JObj (object_literal [Spread options]) in
      if truthy authenticated then
        (case getAuthToken config of
           None \<Rightarrow> Inr opts
         | Some token_of \<Rightarrow>
             and_then (template [JStr ''Bearer '', token_of store]) (\<lambda>bearer.
             Inr (JObj (object_literal
               [Spread opts,
                Field ''headers'' (JObj (object_literal
                  [Spread (dot opts ''headers''),
                   Field ''Authorization'' (JStr bearer)]))]))))
      else Inr opts)"

text \<open>The two handlers of \<open>callApi(...).then(...)\<close>.\<close>

definition onFulfilled :: "(jsval \<Rightarrow> jsval) \<Rightarrow> jsval \<Rightarrow> jsval \<Rightarrow> jsval \<Rightarrow> event list \<times> outcome" where
  "onFulfilled next actions meta response =
     (case createSuccessAction actions response meta of
        Inl e \<Rightarrow> ([], Failed e)
      | Inr message \<Rightarrow> ([Next message], Fulfilled (next message)))"

definition onRejected :: "(jsval \<Rightarrow> jsval) \<Rightarrow> jsval \<Rightarrow> jsval \<Rightarrow> jsval \<Rightarrow> event list \<times> outcome" where
  "onRejected next actions meta error =
     (case get_prop error ''unauthorized'' of
        Inl e \<Rightarrow> ([], Failed e)
      | Inr unauthorized \<Rightarrow>
          (case createErrorAction actions error meta of
             Inl e \<Rightarrow> ([], Failed e)
           | Inr message \<Rightarrow> ([Next message], Fulfilled (next message))))"

text \<open>
  The result of one call of the middleware: the events of the synchronous segment, and
  what the call throws or returns.
\<close>

definition apiMiddleware ::
  "'st config \<Rightarrow> fetch \<Rightarrow> 'st \<Rightarrow> (jsval \<Rightarrow> jsval) \<Rightarrow> jsval \<Rightarrow> event list \<times> (exn + ret)" where
  "apiMiddleware config fetch store next action =
     (case get_prop action API_CALL of
        Inl e \<Rightarrow> ([], Inl e)
      | Inr apiCall \<Rightarrow>
          if typeof apiCall = ''undefined'' then ([Next action], Inr (Value (next action)))
          else if nullish apiCall then ([], Inl TypeError)
          else
            (let url = dot apiCall ''url'';
                 body = dot apiCall ''body'';
                 actions = dot apiCall ''actions'';
                 meta = dot apiCall ''meta'';
                 method = dot apiCall ''method'';
                 options = dot apiCall ''options'';
                 authenticated = or_default (dot apiCall ''authenticated'') (JBool True)
             in if typeof url \<noteq> ''string'' then
                  ([], Inl (Error ''Api call action does not contain url string''))
                else if \<not> truthy actions then
                  ([], Inl (Error ''Api call action does not contain action group''))
                else if \<not> truthy (dot actions ''SUCCESS'') \<or> \<not> truthy (dot actions ''ERROR'')
                        \<or> \<not> truthy (dot actions ''LOADING'') then
                  ([], Inl (Error (''Api call does not contain a correct action group. '' @
                                   ''Please use createApiActionSet to create actions.'')))
                else
                  (case apiOptions config store options authenticated of
                     Inl e \<Rightarrow> ([], Inl e)
                   | Inr opts \<Rightarrow>
                       (case createLoadingAction actions meta of
                          Inl e \<Rightarrow> ([], Inl e)
                        | Inr loading \<Rightarrow>
                            (let (later, out) =
                               (case callApi fetch url body method opts of
                                  Resolved response \<Rightarrow> onFulfilled next actions meta response
                                | Rejected error \<Rightarrow> onRejected next actions meta error)
                             in ([Next loading, CallApi url body method opts],
                                 Inr (Promise later out)))))))"

text \<open>
  The descriptors that pass the checks of lines 48 to 61: \<open>url\<close> is a string, and
  \<open>actions\<close> and its three type names are truthy.
\<close>

definition valid_descriptor :: "jsval \<Rightarrow> bool" where
  "valid_descriptor apiCall =
     (typeof (dot apiCall ''url'') = ''string'' \<and> truthy (dot apiCall ''actions'')
      \<and> truthy (dot (dot apiCall ''actions'') ''SUCCESS'')
      \<and> truthy (dot (dot apiCall ''actions'') ''ERROR'')
      \<and> truthy (dot (dot apiCall ''actions'') ''LOADING''))"

section \<open>Fixtures of the test-suite\<close>

text \<open>
  \<open>fetchMock.mock('*', r)\<close> answers every request alike; \<open>jest.fn()\<close> is a \<open>next\<close>
  that returns \<open>undefined\<close>; \<open>prefs\<close> yields the token \<open>test_token\<close>.
\<close>

definition fetchMock :: "response settled \<Rightarrow> fetch" where
  "fetchMock r url params = r"

definition jest_fn :: "jsval \<Rightarrow> jsval" where
  "jest_fn a = JUndefined"

definition prefs :: "unit config" where
  "prefs = \<lparr>getAuthToken = Some (\<lambda>store. JStr ''test_token'')\<rparr>"

definition TEST_API_ACTION_SET :: jsval where
  "TEST_API_ACTION_SET =
     JObj [(''LOADING'', JStr ''TEST_ACTION_LOADING''),
           (''SUCCESS'', JStr ''TEST_ACTION_SUCCESS''),
           (''ERROR'', JStr ''TEST_ACTION_ERROR''),
           (''actionName'', JStr ''TEST_ACTION'')]"

definition TEST_API_ACTION :: jsval where
  "TEST_API_ACTION =
     JObj [(API_CALL, JObj [(''url'', JStr ''/test''), (''actions'', TEST_API_ACTION_SET)])]"

definition createTestAction :: jsval where
  "createTestAction = JObj [(''type'', JStr ''TEST'')]"

text \<open>
  Four more actions in the style of the test-suite: one whose options carry a header,
  one that opts out of authentication, one that opts out and brings an
  \<open>Authorization\<close> header of its own, and one whose \<open>authenticated\<close> is
  \<open>null\<close>.
\<close>

definition HEADERS_ACTION :: jsval where
  "HEADERS_ACTION =
     JObj [(API_CALL, JObj [(''url'', JStr ''/test''), (''actions'', TEST_API_ACTION_SET),
       (''options'', JObj [(''headers'', JObj [(''Accept'', JStr ''text/plain'')])])])]"

definition UNAUTHENTICATED_ACTION :: jsval where
  "UNAUTHENTICATED_ACTION =
     JObj [(API_CALL, JObj [(''url'', JStr ''/test''), (''actions'', TEST_API_ACTION_SET),
       (''authenticated'', JBool False)])]"

definition OWN_AUTHORIZATION_ACTION :: jsval where
  "OWN_AUTHORIZATION_ACTION =
     JObj [(API_CALL, JObj [(''url'', JStr ''/test''), (''actions'', TEST_API_ACTION_SET),
       (''authenticated'', JBool False),
       (''options'', JObj [(''headers'', JObj [(''Authorization'', JStr ''Basic dXNlcg=='')])])])]"

definition NULL_AUTHENTICATED_ACTION :: jsval where
  "NULL_AUTHENTICATED_ACTION =
     JObj [(API_CALL, JObj [(''url'', JStr ''/test''), (''actions'', TEST_API_ACTION_SET),
       (''authenticated'', JNull)])]"

section \<open>Objects and their properties\<close>

lemma lookup_Nil: "lookup [] k = JUndefined"
  by (simp add: lookup_def)

lemma lookup_Cons: "lookup ((k, v) # ps) k' = (if k' = k then v else lookup ps k')"
  by (simp add: lookup_def)

lemma lookup_update:
  "lookup (AList.update k v ps) k' = (if k' = k then v else lookup ps k')"
  by (simp add: lookup_def update_conv')

text \<open>Setting the properties of a list with distinct keys, one after the other, overlays it.\<close>

lemma map_of_fold_update:
  "distinct (map fst qs) \<Longrightarrow>
   map_of (fold (\<lambda>(k, v). AList.update k v) qs ps) = map_of ps ++ map_of qs"
proof (induction qs arbitrary: ps)
  case Nil
  then show ?case by simp
next
  case (Cons q qs)
  obtain k v where q: "q = (k, v)" by (cases q)
  from Cons.prems q have fresh: "map_of qs k = None" and d: "distinct (map fst qs)"
    by (auto simp: map_of_eq_None_iff)
  have "fold (\<lambda>(k, v). AList.update k v) (q # qs) ps =
          fold (\<lambda>(k, v). AList.update k v) qs (AList.update k v ps)"
    by (simp add: q)
  then have "map_of (fold (\<lambda>(k, v). AList.update k v) (q # qs) ps) =
          map_of (AList.update k v ps) ++ map_of qs"
    by (simp only: Cons.IH [OF d])
  also have "\<dots> = (map_of ps)(k \<mapsto> v) ++ map_of qs"
    by (simp only: update_conv')
  also have "\<dots> = map_of ps ++ map_of (q # qs)"
    using fresh by (auto simp: q fun_eq_iff map_add_def split: option.splits)
  finally show ?case .
qed

lemma map_of_own_props: "map_of (own_props v) = map_of (enumerable v)"
  by (simp add: own_props_def map_of_clearjunk)

lemma lookup_own_props: "lookup (own_props v) k = lookup (enumerable v) k"
  by (simp add: lookup_def map_of_own_props)

lemma map_of_spread:
  "map_of (add_item ps (Spread src)) = map_of ps ++ map_of (own_props src)"
  by (simp add: map_of_fold_update own_props_def)

lemma lookup_spread:
  "lookup (add_item ps (Spread src)) k =
     (case map_of (own_props src) k of None \<Rightarrow> lookup ps k | Some v \<Rightarrow> v)"
  by (simp add: lookup_def map_of_spread map_add_def del: add_item.simps split: option.splits)

lemma lookup_spread_absent:
  "k \<notin> fst ` set (own_props src) \<Longrightarrow> lookup (add_item ps (Spread src)) k = lookup ps k"
  using map_of_eq_None_iff [of "own_props src" k]
  by (simp add: lookup_spread del: add_item.simps)

lemma object_literal_spread_map:
  "map_of (object_literal [Spread src]) = map_of (own_props src)"
  by (simp add: object_literal_def map_of_spread del: add_item.simps)

lemma lookup_copy: "lookup (object_literal [Spread src]) k = lookup (own_props src) k"
  by (simp add: lookup_def object_literal_spread_map)

lemma dot_own_props:
  "k \<noteq> ''name'' \<Longrightarrow> k \<noteq> ''message'' \<Longrightarrow> dot v k = lookup (own_props v) k"
  by (cases v) (simp_all add: lookup_own_props)

lemma dot_copy:
  "k \<noteq> ''name'' \<Longrightarrow> k \<noteq> ''message'' \<Longrightarrow> dot (JObj (object_literal [Spread src])) k = dot src k"
  by (simp add: lookup_copy dot_own_props [of k src])

lemma truthy_not_nullish: "truthy v \<Longrightarrow> \<not> nullish v"
  by (cases v) simp_all

lemma get_prop_truthy: "truthy v \<Longrightarrow> get_prop v k = Inr (dot v k)"
  by (simp add: get_prop_def truthy_not_nullish)

section \<open>The middleware on a valid descriptor\<close>

lemma createLoadingAction_truthy:
  "truthy actions \<Longrightarrow>
   createLoadingAction actions meta =
     Inr (JObj (object_literal
       [Field ''type'' (dot actions ''LOADING''),
        Field ''apiActionType'' (JStr ''LOADING''),
        Field ''actionName'' (dot actions ''actionName''),
        Spread meta]))"
  by (simp add: createLoadingAction_def get_prop_truthy and_then_def apiActionType_def lookup_def)

lemma createSuccessAction_truthy:
  "truthy actions \<Longrightarrow>
   createSuccessAction actions response meta =
     Inr (JObj (object_literal
       [Field ''type'' (dot actions ''SUCCESS''),
        Field ''apiActionType'' (JStr ''SUCCESS''),
        Field ''actionName'' (dot actions ''actionName''),
        Field ''response'' response,
        Spread meta]))"
  by (simp add: createSuccessAction_def get_prop_truthy and_then_def apiActionType_def lookup_def)

lemma valid_descriptor_defined:
  "valid_descriptor d \<Longrightarrow> typeof d \<noteq> ''undefined'' \<and> \<not> nullish d"
  by (cases d) (auto simp: valid_descriptor_def lookup_def)

text \<open>Past its checks, the middleware is the authorization step, the Loading message and the call.\<close>

lemma apiMiddleware_valid:
  assumes "get_prop action API_CALL = Inr d" and "valid_descriptor d"
  shows "apiMiddleware config fetch store next action =
     (case apiOptions config store (dot d ''options'')
             (or_default (dot d ''authenticated'') (JBool True)) of
        Inl e \<Rightarrow> ([], Inl e)
      | Inr opts \<Rightarrow>
          (case createLoadingAction (dot d ''actions'') (dot d ''meta'') of
             Inl e \<Rightarrow> ([], Inl e)
           | Inr loading \<Rightarrow>
               (let (later, out) =
                  (case callApi fetch (dot d ''url'') (dot d ''body'') (dot d ''method'') opts of
                     Resolved response \<Rightarrow> onFulfilled next (dot d ''actions'') (dot d ''meta'') response
                   | Rejected error \<Rightarrow> onRejected next (dot d ''actions'') (dot d ''meta'') error)
                in ([Next loading, CallApi (dot d ''url'') (dot d ''body'') (dot d ''method'') opts],
                    Inr (Promise later out)))))"
  using assms valid_descriptor_defined [OF assms(2)]
  by (simp add: apiMiddleware_def valid_descriptor_def Let_def)

lemma apiOptions_unauthenticated:
  "\<not> truthy authenticated \<Longrightarrow>
   apiOptions config store options authenticated = Inr (JObj (object_literal [Spread options]))"
  by (simp add: apiOptions_def Let_def split: option.splits)

lemma apiOptions_token:
  assumes "getAuthToken config = Some f" and "f store = JStr t" and "truthy authenticated"
  shows "apiOptions config store options authenticated =
     Inr (JObj (object_literal
       [Spread (JObj (object_literal [Spread options])),
        Field ''headers'' (JObj (object_literal
          [Spread (dot options ''headers''),
           Field ''Authorization'' (JStr (''Bearer '' @ t))]))]))"
  using assms
  by (simp add: apiOptions_def Let_def and_then_def dot_copy del: dot.simps)

text \<open>
  A descriptor that fails a check makes the call throw before anything is handed to
  \<open>next\<close>; so does the descriptor \<open>null\<close>.
\<close>

lemma malformed_descriptor_throws:
  assumes "get_prop action API_CALL = Inr d" and "d \<noteq> JUndefined" and "\<not> valid_descriptor d"
  shows "\<exists>e. apiMiddleware config fetch store next action = ([], Inl e)"
proof (cases "nullish d")
  case True
  with assms(1,2) show ?thesis
    by (cases d) (simp_all add: apiMiddleware_def)
next
  case False
  then have "typeof d \<noteq> ''undefined''"
    by (cases d) simp_all
  with False assms(1,3) show ?thesis
    by (auto simp: apiMiddleware_def valid_descriptor_def Let_def)
qed

text \<open>The synchronous segment does not depend on how the transport answers, nor on \<open>next\<close>.\<close>

lemma synchronous_segment:
  "fst (apiMiddleware config fetch store next action) =
   fst (apiMiddleware config fetch' store next' action)"
  by (simp add: apiMiddleware_def Let_def split: sum.splits prod.splits)

text \<open>
  The life cycle of a call on a valid descriptor: Loading at once; Success when the
  transport resolves; Error when it rejects with a value whose \<open>toString()\<close> returns.
\<close>

lemma lifecycle_resolved:
  assumes "get_prop action API_CALL = Inr d" and "valid_descriptor d"
    and "apiOptions config store (dot d ''options'')
           (or_default (dot d ''authenticated'') (JBool True)) = Inr opts"
    and "callApi fetch (dot d ''url'') (dot d ''body'') (dot d ''method'') opts = Resolved response"
  shows "\<exists>loading success.
           createLoadingAction (dot d ''actions'') (dot d ''meta'') = Inr loading
           \<and> createSuccessAction (dot d ''actions'') response (dot d ''meta'') = Inr success
           \<and> apiMiddleware config fetch store next action =
               ([Next loading, CallApi (dot d ''url'') (dot d ''body'') (dot d ''method'') opts],
                Inr (Promise [Next success] (Fulfilled (next success))))"
proof -
  have actions: "truthy (dot d ''actions'')"
    using assms(2) by (simp add: valid_descriptor_def)
  show ?thesis
    by (simp add: apiMiddleware_valid [OF assms(1) assms(2)] assms(3) assms(4) onFulfilled_def
        createLoadingAction_truthy [OF actions] createSuccessAction_truthy [OF actions])
qed

lemma lifecycle_rejected:
  assumes "get_prop action API_CALL = Inr d" and "valid_descriptor d"
    and "apiOptions config store (dot d ''options'')
           (or_default (dot d ''authenticated'') (JBool True)) = Inr opts"
    and "callApi fetch (dot d ''url'') (dot d ''body'') (dot d ''method'') opts = Rejected error"
    and "toString error = Inr text"
  shows "\<exists>loading failure.
           createLoadingAction (dot d ''actions'') (dot d ''meta'') = Inr loading
           \<and> createErrorAction (dot d ''actions'') error (dot d ''meta'') = Inr failure
           \<and> apiMiddleware config fetch store next action =
               ([Next loading, CallApi (dot d ''url'') (dot d ''body'') (dot d ''method'') opts],
                Inr (Promise [Next failure] (Fulfilled (next failure))))"
proof -
  have actions: "truthy (dot d ''actions'')"
    using assms(2) by (simp add: valid_descriptor_def)
  have defined: "\<not> nullish error"
    using assms(5) by (auto simp: toString_def split: if_splits)
  show ?thesis
    by (simp add: apiMiddleware_valid [OF assms(1) assms(2)] assms(3) assms(4) assms(5)
        onRejected_def createLoadingAction_truthy [OF actions] createErrorAction_def
        truthy_not_nullish [OF actions] get_prop_def defined and_then_def)
qed

text \<open>A descriptor with a string \<open>url\<close> and the Action Set of a base name string is valid.\<close>

lemma action_set_descriptor_valid:
  assumes "createApiActionSet (JStr n) = Inr actions"
  shows "valid_descriptor (JObj [(''url'', JStr url), (''actions'', actions)])"
proof -
  have "actions = JObj [(''LOADING'', JStr (n @ ''_LOADING'')), (''SUCCESS'', JStr (n @ ''_SUCCESS'')),
      (''ERROR'', JStr (n @ ''_ERROR'')), (''actionName'', JStr n)]"
    using assms
    by (simp add: createApiActionSet_def and_then_def apiActionType_def lookup_def
        object_literal_def)
  then show ?thesis
    by (simp add: valid_descriptor_def lookup_def)
qed

text \<open>
  The two scenarios of the test-suite: the action \<open>TEST_API_ACTION\<close> answered with
  status 200 and the body \<open>{test: true}\<close>, and with status 400 and the same body.
\<close>

lemma scenario_success:
  "apiMiddleware (defaultConfig :: unit config)
     (fetchMock (Resolved \<lparr>status = 200, json = Resolved (JObj [(''test'', JBool True)])\<rparr>))
     () jest_fn TEST_API_ACTION =
     ([Next (JObj [(''type'', JStr ''TEST_ACTION_LOADING''), (''apiActionType'', JStr ''LOADING''),
                   (''actionName'', JStr ''TEST_ACTION'')]),
       CallApi (JStr ''/test'') JUndefined JUndefined (JObj [])],
      Inr (Promise
        [Next (JObj [(''type'', JStr ''TEST_ACTION_SUCCESS''), (''apiActionType'', JStr ''SUCCESS''),
                     (''actionName'', JStr ''TEST_ACTION''),
                     (''response'', JObj [(''test'', JBool True)])])]
        (Fulfilled JUndefined)))"
  by code_simp

lemma scenario_error:
  "apiMiddleware (defaultConfig :: unit config)
     (fetchMock (Resolved \<lparr>status = 400, json = Resolved (JObj [(''test'', JBool True)])\<rparr>))
     () jest_fn TEST_API_ACTION =
     ([Next (JObj [(''type'', JStr ''TEST_ACTION_LOADING''), (''apiActionType'', JStr ''LOADING''),
                   (''actionName'', JStr ''TEST_ACTION'')]),
       CallApi (JStr ''/test'') JUndefined JUndefined (JObj [])],
      Inr (Promise
        [Next (JObj [(''type'', JStr ''TEST_ACTION_ERROR''), (''apiActionType'', JStr ''ERROR''),
                     (''rawError'', JObj [(''test'', JBool True)]),
                     (''error'', JStr ''[object Object]''),
                     (''actionName'', JStr ''TEST_ACTION'')])]
        (Fulfilled JUndefined)))"
  by code_simp

section \<open>The claims\<close>

text \<open>
  C1. For a valid descriptor the middleware hands one Loading message to \<open>next\<close> in its
  synchronous segment, and afterwards one Success message if the transport resolves or one
  Error message if it rejects (\<open>lifecycle_resolved\<close>, \<open>lifecycle_rejected\<close>). The code
  departs from this where the transport rejects with \<open>null\<close> or \<open>undefined\<close>: the
  rejection handler reads \<open>error.unauthorized\<close>, which throws, so after the Loading
  message neither a Success nor an Error message is dispatched and the returned promise is
  rejected with the \<open>TypeError\<close>.
\<close>

theorem nullish_rejection_dispatches_neither:
  assumes "get_prop action API_CALL = Inr d" and "valid_descriptor d"
    and "apiOptions config store (dot d ''options'')
           (or_default (dot d ''authenticated'') (JBool True)) = Inr opts"
    and "callApi fetch (dot d ''url'') (dot d ''body'') (dot d ''method'') opts = Rejected error"
    and "nullish error"
  shows "\<exists>loading.
           createLoadingAction (dot d ''actions'') (dot d ''meta'') = Inr loading
           \<and> apiMiddleware config fetch store next action =
               ([Next loading, CallApi (dot d ''url'') (dot d ''body'') (dot d ''method'') opts],
                Inr (Promise [] (Failed TypeError)))"
proof -
  have actions: "truthy (dot d ''actions'')"
    using assms(2) by (simp add: valid_descriptor_def)
  show ?thesis
    by (simp add: apiMiddleware_valid [OF assms(1) assms(2)] assms(3) assms(4) assms(5)
        onRejected_def createLoadingAction_truthy [OF actions] get_prop_def)
qed

text \<open>
  The test-suite's action, answered with status 500 and the JSON body \<open>null\<close>: the
  Loading message is the only one dispatched.
\<close>

theorem nullish_rejection_dispatches_neither_witness:
  "apiMiddleware (defaultConfig :: unit config)
     (fetchMock (Resolved \<lparr>status = 500, json = Resolved JNull\<rparr>)) () jest_fn TEST_API_ACTION =
     ([Next (JObj [(''type'', JStr ''TEST_ACTION_LOADING''), (''apiActionType'', JStr ''LOADING''),
                   (''actionName'', JStr ''TEST_ACTION'')]),
       CallApi (JStr ''/test'') JUndefined JUndefined (JObj [])],
      Inr (Promise [] (Failed TypeError)))"
proof -
  let ?d = "dot TEST_API_ACTION API_CALL"
  let ?fetch = "fetchMock (Resolved \<lparr>status = 500, json = Resolved JNull\<rparr>)"
  have h1: "get_prop TEST_API_ACTION API_CALL = Inr ?d"
    by code_simp
  have h2: "valid_descriptor ?d"
    by code_simp
  have h3: "apiOptions (defaultConfig :: unit config) () (dot ?d ''options'')
              (or_default (dot ?d ''authenticated'') (JBool True)) = Inr (JObj [])"
    by code_simp
  have h4: "callApi ?fetch (dot ?d ''url'') (dot ?d ''body'') (dot ?d ''method'') (JObj []) =
              Rejected JNull"
    by code_simp
  have h5: "nullish JNull"
    by simp
  have args: "dot ?d ''url'' = JStr ''/test''" "dot ?d ''body'' = JUndefined"
    "dot ?d ''method'' = JUndefined"
    by code_simp+
  have loading: "createLoadingAction (dot ?d ''actions'') (dot ?d ''meta'') =
      Inr (JObj [(''type'', JStr ''TEST_ACTION_LOADING''), (''apiActionType'', JStr ''LOADING''),
                 (''actionName'', JStr ''TEST_ACTION'')])"
    by code_simp
  from nullish_rejection_dispatches_neither [OF h1 h2 h3 h4 h5, of jest_fn]
  obtain l where a: "createLoadingAction (dot ?d ''actions'') (dot ?d ''meta'') = Inr l"
    and b: "apiMiddleware (defaultConfig :: unit config) ?fetch () jest_fn TEST_API_ACTION =
              ([Next l, CallApi (dot ?d ''url'') (dot ?d ''body'') (dot ?d ''method'') (JObj [])],
               Inr (Promise [] (Failed TypeError)))"
    by blast
  from a loading have "l = JObj [(''type'', JStr ''TEST_ACTION_LOADING''),
      (''apiActionType'', JStr ''LOADING''), (''actionName'', JStr ''TEST_ACTION'')]"
    by simp
  with b show ?thesis
    by (simp only: args)
qed

text \<open>
  C2. A descriptor whose \<open>url\<close> is not a string, whose \<open>actions\<close> is absent or whose
  action set lacks \<open>LOADING\<close>, \<open>SUCCESS\<close> or \<open>ERROR\<close> makes the call throw with
  nothing dispatched (\<open>malformed_descriptor_throws\<close>), and a transport rejection is to
  become an Error message, never a throw. The code departs from the second half where an
  error response (a status outside 200 to 299 other than 401) has the JSON body
  \<open>null\<close>: the transport rejects with \<open>null\<close>, the rejection handler throws the
  \<open>TypeError\<close>, and no Error message is dispatched.
\<close>

theorem null_error_body_not_converted:
  assumes "get_prop action API_CALL = Inr d" and "valid_descriptor d"
    and "apiOptions config store (dot d ''options'')
           (or_default (dot d ''authenticated'') (JBool True)) = Inr opts"
    and "fetch (dot d ''url'') (callApi_params (dot d ''body'') (dot d ''method'') opts) = Resolved r"
    and "\<not> (200 \<le> status r \<and> status r < 300)" and "status r \<noteq> 401"
    and "json r = Resolved JNull"
  shows "snd (apiMiddleware config fetch store next action) = Inr (Promise [] (Failed TypeError))"
proof -
  have "callApi fetch (dot d ''url'') (dot d ''body'') (dot d ''method'') opts = Rejected JNull"
    using assms(4-7) by (auto simp: callApi_def handleErrorResponse_def)
  moreover have "truthy (dot d ''actions'')"
    using assms(2) by (simp add: valid_descriptor_def)
  ultimately show ?thesis
    by (simp add: apiMiddleware_valid [OF assms(1) assms(2)] assms(3)
        onRejected_def createLoadingAction_truthy get_prop_def)
qed

text \<open>The test-suite's action and token source, answered with status 400 and the body \<open>null\<close>.\<close>

theorem null_error_body_not_converted_witness:
  "valid_descriptor (dot TEST_API_ACTION API_CALL)
   \<and> snd (apiMiddleware prefs (fetchMock (Resolved \<lparr>status = 400, json = Resolved JNull\<rparr>))
            () jest_fn TEST_API_ACTION) =
       Inr (Promise [] (Failed TypeError))"
proof -
  let ?d = "dot TEST_API_ACTION API_CALL"
  let ?r = "\<lparr>status = 400, json = Resolved JNull\<rparr>"
  let ?opts = "JObj [(''headers'', JObj [(''Authorization'', JStr ''Bearer test_token'')])]"
  have h1: "get_prop TEST_API_ACTION API_CALL = Inr ?d"
    by code_simp
  have h2: "valid_descriptor ?d"
    by code_simp
  have h3: "apiOptions prefs () (dot ?d ''options'')
              (or_default (dot ?d ''authenticated'') (JBool True)) = Inr ?opts"
    by code_simp
  have h4: "fetchMock (Resolved ?r) (dot ?d ''url'')
              (callApi_params (dot ?d ''body'') (dot ?d ''method'') ?opts) = Resolved ?r"
    by (simp add: fetchMock_def)
  have h5: "\<not> (200 \<le> status ?r \<and> status ?r < 300)" and h6: "status ?r \<noteq> 401"
    and h7: "json ?r = Resolved JNull"
    by simp_all
  note conclusion =
    null_error_body_not_converted [where fetch = "fetchMock (Resolved ?r)",
      OF h1 h2 h3 h4 h5 h6 h7, of jest_fn]
  show ?thesis
    by (intro conjI h2 conclusion)
qed




text \<open>
  C4, as amended. For every valid descriptor whose \<open>authenticated\<close> is left out or is
  truthy, and a configured token source that yields the token \<open>t\<close>, the options handed
  to the transport have a \<open>headers\<close> object whose \<open>Authorization\<close> is \<open>Bearer\<close>,
  a space and \<open>t\<close>, and whose other fields are exactly the caller's header fields,
  unchanged.
\<close>

theorem bearer_token_attached:
  assumes "get_prop action API_CALL = Inr d" and "valid_descriptor d"
    and "dot d ''authenticated'' = JUndefined \<or> truthy (dot d ''authenticated'')"
    and "getAuthToken config = Some f" and "f store = JStr t"
  shows "\<exists>loading opts hs.
           fst (apiMiddleware config fetch store next action) =
             [Next loading, CallApi (dot d ''url'') (dot d ''body'') (dot d ''method'') opts]
           \<and> dot opts ''headers'' = JObj hs
           \<and> map_of hs = (map_of (own_props (dot (dot d ''options'') ''headers'')))
                            (''Authorization'' \<mapsto> JStr (''Bearer '' @ t))"
proof -
  let ?auth = "or_default (dot d ''authenticated'') (JBool True)"
  let ?hs = "object_literal [Spread (dot (dot d ''options'') ''headers''),
                             Field ''Authorization'' (JStr (''Bearer '' @ t))]"
  let ?opts = "JObj (object_literal
       [Spread (JObj (object_literal [Spread (dot d ''options'')])), Field ''headers'' (JObj ?hs)])"
  have auth: "truthy ?auth"
    using assms(3) by (cases "dot d ''authenticated''") auto
  have opts: "apiOptions config store (dot d ''options'') ?auth = Inr ?opts"
    by (rule apiOptions_token [OF assms(4) assms(5) auth])
  have actions: "truthy (dot d ''actions'')"
    using assms(2) by (simp add: valid_descriptor_def)
  have events: "fst (apiMiddleware config fetch store next action) =
      [Next (JObj (object_literal
         [Field ''type'' (dot (dot d ''actions'') ''LOADING''),
          Field ''apiActionType'' (JStr ''LOADING''),
          Field ''actionName'' (dot (dot d ''actions'') ''actionName''),
          Spread (dot d ''meta'')])),
       CallApi (dot d ''url'') (dot d ''body'') (dot d ''method'') ?opts]"
    by (simp add: apiMiddleware_valid [OF assms(1) assms(2)] opts
        createLoadingAction_truthy [OF actions] split: settled.splits prod.splits)
  have headers: "dot ?opts ''headers'' = JObj ?hs"
    by (simp add: object_literal_def lookup_update del: add_item.simps(2))
  have "map_of ?hs = (map_of (own_props (dot (dot d ''options'') ''headers'')))
                            (''Authorization'' \<mapsto> JStr (''Bearer '' @ t))"
    by (simp add: object_literal_def update_conv' map_of_spread del: add_item.simps(2))
  with events headers show ?thesis by blast
qed

text \<open>An action whose options bring an \<open>Accept\<close> header, with the token source of the tests.\<close>

theorem bearer_token_attached_witness:
  "get_prop HEADERS_ACTION API_CALL = Inr (dot HEADERS_ACTION API_CALL)
   \<and> valid_descriptor (dot HEADERS_ACTION API_CALL)
   \<and> dot (dot HEADERS_ACTION API_CALL) ''authenticated'' = JUndefined
   \<and> getAuthToken prefs = Some (\<lambda>store. JStr ''test_token'')
   \<and> (\<exists>loading opts hs.
         fst (apiMiddleware prefs (fetchMock (Rejected JNull)) () jest_fn HEADERS_ACTION) =
           [Next loading, CallApi (JStr ''/test'') JUndefined JUndefined opts]
         \<and> dot opts ''headers'' = JObj hs
         \<and> map_of hs = (map_of [(''Accept'', JStr ''text/plain'')])
                            (''Authorization'' \<mapsto> JStr (''Bearer '' @ ''test_token'')))"
proof -
  let ?d = "dot HEADERS_ACTION API_CALL"
  have h1: "get_prop HEADERS_ACTION API_CALL = Inr ?d"
    by code_simp
  have h2: "valid_descriptor ?d"
    by code_simp
  have h3: "dot ?d ''authenticated'' = JUndefined"
    by code_simp
  have h4: "getAuthToken prefs = Some (\<lambda>store. JStr ''test_token'')"
    by (simp add: prefs_def)
  have h5: "(\<lambda>store. JStr ''test_token'') () = JStr ''test_token''"
    by simp
  have args: "dot ?d ''url'' = JStr ''/test''" "dot ?d ''body'' = JUndefined"
    "dot ?d ''method'' = JUndefined"
    by code_simp+
  have own: "own_props (dot (dot ?d ''options'') ''headers'') = [(''Accept'', JStr ''text/plain'')]"
    by code_simp
  note conclusion =
    bearer_token_attached [where f = "\<lambda>store. JStr ''test_token''" and store = "()"
      and t = "''test_token''" and fetch = "fetchMock (Rejected JNull)",
      OF h1 h2 disjI1 [OF h3] h4 h5, of jest_fn, unfolded args own]
  show ?thesis
    by (intro conjI h1 h2 h3 h4 conclusion)
qed

text \<open>
  The claim as it was stated fails where \<open>authenticated\<close> is a falsy value other than
  \<open>false\<close>: with \<open>authenticated: null\<close> and the token source of the tests, the
  options handed to the transport have no headers at all.
\<close>

theorem null_authenticated_no_header:
  "fst (apiMiddleware prefs (fetchMock (Rejected JNull)) () jest_fn NULL_AUTHENTICATED_ACTION) =
     [Next (JObj [(''type'', JStr ''TEST_ACTION_LOADING''), (''apiActionType'', JStr ''LOADING''),
                  (''actionName'', JStr ''TEST_ACTION'')]),
      CallApi (JStr ''/test'') JUndefined JUndefined (JObj [])]"
  by code_simp

text \<open>
  C5, as amended. For every valid descriptor whose \<open>authenticated\<close> is \<open>false\<close>, the
  options handed to the transport are a copy of the caller's options: they hold exactly
  the caller's own fields (so an \<open>Authorization\<close> header only where the caller's options
  bring one), and the whole result of the call is the same under any two configurations,
  whatever their token source.
\<close>

theorem unauthenticated_options:
  assumes "get_prop action API_CALL = Inr d" and "valid_descriptor d"
    and "dot d ''authenticated'' = JBool False"
  shows "(\<exists>loading ps.
            fst (apiMiddleware config fetch store next action) =
              [Next loading, CallApi (dot d ''url'') (dot d ''body'') (dot d ''method'') (JObj ps)]
            \<and> map_of ps = map_of (own_props (dot d ''options'')))
         \<and> apiMiddleware config fetch store next action =
             apiMiddleware config' fetch store next action"
proof -
  have opts: "apiOptions c store (dot d ''options'') (or_default (dot d ''authenticated'') (JBool True)) =
      Inr (JObj (object_literal [Spread (dot d ''options'')]))" for c :: "'a config"
    by (rule apiOptions_unauthenticated) (simp add: assms(3))
  have actions: "truthy (dot d ''actions'')"
    using assms(2) by (simp add: valid_descriptor_def)
  have "fst (apiMiddleware config fetch store next action) =
      [Next (JObj (object_literal
         [Field ''type'' (dot (dot d ''actions'') ''LOADING''),
          Field ''apiActionType'' (JStr ''LOADING''),
          Field ''actionName'' (dot (dot d ''actions'') ''actionName''),
          Spread (dot d ''meta'')])),
       CallApi (dot d ''url'') (dot d ''body'') (dot d ''method'')
         (JObj (object_literal [Spread (dot d ''options'')]))]"
    by (simp add: apiMiddleware_valid [OF assms(1) assms(2)] opts
        createLoadingAction_truthy [OF actions] split: settled.splits prod.splits)
  moreover have "map_of (object_literal [Spread (dot d ''options'')]) =
      map_of (own_props (dot d ''options''))"
    by (rule object_literal_spread_map)
  moreover have "apiMiddleware config fetch store next action =
      apiMiddleware config' fetch store next action"
    by (simp only: apiMiddleware_valid [OF assms(1) assms(2)] opts)
  ultimately show ?thesis by blast
qed

text \<open>The action that opts out, under the token source of the tests and under none.\<close>

theorem unauthenticated_options_witness:
  "get_prop UNAUTHENTICATED_ACTION API_CALL = Inr (dot UNAUTHENTICATED_ACTION API_CALL)
   \<and> valid_descriptor (dot UNAUTHENTICATED_ACTION API_CALL)
   \<and> dot (dot UNAUTHENTICATED_ACTION API_CALL) ''authenticated'' = JBool False
   \<and> apiMiddleware prefs (fetchMock (Rejected JNull)) () jest_fn UNAUTHENTICATED_ACTION =
       apiMiddleware defaultConfig (fetchMock (Rejected JNull)) () jest_fn UNAUTHENTICATED_ACTION"
proof -
  let ?d = "dot UNAUTHENTICATED_ACTION API_CALL"
  have h1: "get_prop UNAUTHENTICATED_ACTION API_CALL = Inr ?d"
    by code_simp
  have h2: "valid_descriptor ?d"
    by code_simp
  have h3: "dot ?d ''authenticated'' = JBool False"
    by code_simp
  note conclusion =
    unauthenticated_options [OF h1 h2 h3, of prefs "fetchMock (Rejected JNull)" "()" jest_fn defaultConfig]
  show ?thesis
    by (intro conjI h1 h2 h3 conjunct2 [OF conclusion])
qed

text \<open>
  The claim as it was stated fails where the caller's own options bring an
  \<open>Authorization\<close> header: with \<open>authenticated: false\<close> the header reaches the
  transport.
\<close>

theorem caller_authorization_kept:
  "fst (apiMiddleware prefs (fetchMock (Rejected JNull)) () jest_fn OWN_AUTHORIZATION_ACTION) =
     [Next (JObj [(''type'', JStr ''TEST_ACTION_LOADING''), (''apiActionType'', JStr ''LOADING''),
                  (''actionName'', JStr ''TEST_ACTION'')]),
      CallApi (JStr ''/test'') JUndefined JUndefined
        (JObj [(''headers'', JObj [(''Authorization'', JStr ''Basic dXNlcg=='')])])]"
  by code_simp

text \<open>
  C6, as amended. When the method is exactly \<open>POST\<close>, the parameters \<open>callApi\<close> hands
  to \<open>fetch\<close> have as \<open>body\<close> the JSON text of the body argument if that is truthy
  (the argument itself otherwise), and a \<open>Content-Type\<close> header
  \<open>application/json;\<close>. For every other method, \<open>PUT\<close> and \<open>PATCH\<close> among them,
  the parameters are the caller's options and the method, with no body and no header
  added.
\<close>

theorem callApi_params_post:
  "dot (callApi_params body (JStr ''POST'') options) ''body'' =
     (if truthy body then JSON_stringify body else body)
   \<and> dot (dot (callApi_params body (JStr ''POST'') options) ''headers'') ''Content-Type'' =
       JStr ''application/json;''
   \<and> (or_default method (JStr ''GET'') \<noteq> JStr ''POST'' \<longrightarrow>
        callApi_params body method options =
          JObj (object_literal [Spread (or_default options (JObj [])),
                                Field ''method'' (or_default method (JStr ''GET''))]))"
  by (simp add: callApi_params_def Let_def lookup_update object_literal_def del: add_item.simps(2))

theorem callApi_params_post_witness:
  "or_default (JStr ''PUT'') (JStr ''GET'') \<noteq> JStr ''POST''
   \<and> callApi_params (JObj [(''a'', JNum 1)]) (JStr ''PUT'') (JObj [(''mode'', JStr ''cors'')]) =
       JObj [(''mode'', JStr ''cors''), (''method'', JStr ''PUT'')]"
  using callApi_params_post [of "JObj [(''a'', JNum 1)]" "JObj [(''mode'', JStr ''cors'')]" "JStr ''PUT''"]
  by (simp add: object_literal_def own_props_def)

text \<open>
  The claim as it was stated fails at \<open>PUT\<close>: the body is not sent and no header is
  set. At \<open>POST\<close> a body that is not truthy, such as \<open>null\<close>, is passed on as it
  is, not as its JSON text.
\<close>

theorem put_body_not_serialized:
  "dot (callApi_params (JObj [(''a'', JNum 1)]) (JStr ''PUT'') JUndefined) ''body'' = JUndefined
   \<and> dot (callApi_params (JObj [(''a'', JNum 1)]) (JStr ''PUT'') JUndefined) ''headers'' = JUndefined
   \<and> dot (callApi_params JNull (JStr ''POST'') JUndefined) ''body'' = JNull
   \<and> JSON_stringify JNull = JStr ''null''"
  by code_simp

text \<open>
  C7. Every action that carries nothing under the \<open>API_CALL\<close> key is handed unchanged to
  \<open>next\<close>, once; the call returns what \<open>next\<close> returns, and no other message is
  dispatched.
\<close>

theorem passes_through:
  assumes "get_prop action API_CALL = Inr JUndefined"
  shows "apiMiddleware config fetch store next action = ([Next action], Inr (Value (next action)))"
  by (simp add: apiMiddleware_def assms)

theorem passes_through_witness:
  "get_prop createTestAction API_CALL = Inr JUndefined
   \<and> apiMiddleware prefs (fetchMock (Rejected JNull)) () jest_fn createTestAction =
       ([Next createTestAction], Inr (Value (jest_fn createTestAction)))"
proof -
  have h: "get_prop createTestAction API_CALL = Inr JUndefined"
    by code_simp
  show ?thesis
    by (intro conjI h passes_through [OF h])
qed

text \<open>
  C8. For every base name string \<open>n\<close>, \<open>createApiActionSet(n)\<close> returns, without
  throwing, the Action Set whose \<open>LOADING\<close>, \<open>SUCCESS\<close> and \<open>ERROR\<close> fields are
  \<open>n\<close> followed by \<open>_LOADING\<close>, \<open>_SUCCESS\<close> and \<open>_ERROR\<close>, and whose
  \<open>actionName\<close> field is \<open>n\<close>.
\<close>

theorem createApiActionSet_string:
  "createApiActionSet (JStr n) =
     Inr (JObj [(''LOADING'', JStr (n @ ''_LOADING'')),
                (''SUCCESS'', JStr (n @ ''_SUCCESS'')),
                (''ERROR'', JStr (n @ ''_ERROR'')),
                (''actionName'', JStr n)])"
  by (simp add: createApiActionSet_def and_then_def apiActionType_def lookup_def object_literal_def)

text \<open>
  C9, as amended. For every type, every error value \<open>err\<close> whose \<open>toString()\<close>
  returns, and every metadata value with no field named \<open>error\<close> or \<open>rawError\<close>,
  \<open>createErrorAction\<close> returns a message whose \<open>error\<close> field is \<open>err.toString()\<close>
  and whose \<open>rawError\<close> field is \<open>err\<close>; in both copies of the module, the one that
  takes the Action Set needing one that is not \<open>null\<close> or \<open>undefined\<close>.
\<close>

theorem createErrorAction_fields:
  assumes "toString err = Inr text"
    and "''error'' \<notin> fst ` set (own_props meta)"
    and "''rawError'' \<notin> fst ` set (own_props meta)"
  shows "(\<exists>message. createErrorAction_of_type type err meta = Inr message
            \<and> dot message ''error'' = text \<and> dot message ''rawError'' = err)
       \<and> (\<not> nullish actions \<longrightarrow>
            (\<exists>message. createErrorAction actions err meta = Inr message
               \<and> dot message ''error'' = text \<and> dot message ''rawError'' = err))"
  using assms
  by (simp add: createErrorAction_of_type_def createErrorAction_def and_then_def get_prop_def
      object_literal_def lookup_spread_absent lookup_Cons del: add_item.simps(2))

text \<open>The error of the test-suite, \<open>{err: "bad"}\<close>, with metadata that names a person.\<close>

theorem createErrorAction_fields_witness:
  "toString (JObj [(''err'', JStr ''bad'')]) = Inr (JStr ''[object Object]'')
   \<and> (\<exists>message. createErrorAction_of_type (JStr ''TEST_ACTION_ERROR'')
           (JObj [(''err'', JStr ''bad'')]) (JObj [(''firstName'', JStr ''John'')]) = Inr message
         \<and> dot message ''error'' = JStr ''[object Object]''
         \<and> dot message ''rawError'' = JObj [(''err'', JStr ''bad'')])
   \<and> createErrorAction TEST_API_ACTION_SET (JObj [(''err'', JStr ''bad'')])
         (JObj [(''firstName'', JStr ''John'')]) =
       Inr (JObj [(''type'', JStr ''TEST_ACTION_ERROR''), (''apiActionType'', JStr ''ERROR''),
                  (''rawError'', JObj [(''err'', JStr ''bad'')]),
                  (''error'', JStr ''[object Object]''), (''actionName'', JStr ''TEST_ACTION''),
                  (''firstName'', JStr ''John'')])"
proof -
  have h1: "toString (JObj [(''err'', JStr ''bad'')]) = Inr (JStr ''[object Object]'')"
    by code_simp
  have h2: "''error'' \<notin> fst ` set (own_props (JObj [(''firstName'', JStr ''John'')]))"
    by (simp add: own_props_def)
  have h3: "''rawError'' \<notin> fst ` set (own_props (JObj [(''firstName'', JStr ''John'')]))"
    by (simp add: own_props_def)
  have e: "createErrorAction TEST_API_ACTION_SET (JObj [(''err'', JStr ''bad'')])
         (JObj [(''firstName'', JStr ''John'')]) =
       Inr (JObj [(''type'', JStr ''TEST_ACTION_ERROR''), (''apiActionType'', JStr ''ERROR''),
                  (''rawError'', JObj [(''err'', JStr ''bad'')]),
                  (''error'', JStr ''[object Object]''), (''actionName'', JStr ''TEST_ACTION''),
                  (''firstName'', JStr ''John'')])"
    by code_simp
  note fields = createErrorAction_fields [OF h1 h2 h3, of "JStr ''TEST_ACTION_ERROR''" JNull]
  show ?thesis
    by (intro conjI h1 conjunct1 [OF fields] e)
qed

text \<open>
  The claim as it was stated fails where the metadata has a field named \<open>error\<close>: the
  field of the message is the one of the metadata, not \<open>err.toString()\<close>. And for the
  error \<open>null\<close> no message is returned.
\<close>

theorem meta_overrides_error:
  "createErrorAction_of_type (JStr ''TEST_ACTION_ERROR'') (JStr ''boom'')
     (JObj [(''error'', JStr ''overridden'')]) =
     Inr (JObj [(''type'', JStr ''TEST_ACTION_ERROR''), (''apiActionType'', JStr ''ERROR''),
                (''rawError'', JStr ''boom''), (''error'', JStr ''overridden'')])
   \<and> toString (JStr ''boom'') = Inr (JStr ''boom'')
   \<and> createErrorAction_of_type (JStr ''TEST_ACTION_ERROR'') JNull (JObj []) = Inl TypeError"
  by code_simp

text \<open>
  C10. \<open>createErrorAction\<close> calls \<open>toString()\<close> on its error argument whatever it is:
  for \<open>null\<close> and for \<open>undefined\<close> it throws and returns no message, in both copies
  of the module; and the rejection handler of the middleware, given \<open>null\<close> or
  \<open>undefined\<close>, throws as well and dispatches nothing.
\<close>

theorem createErrorAction_null:
  "createErrorAction actions JNull meta = Inl TypeError
   \<and> createErrorAction actions JUndefined meta = Inl TypeError
   \<and> createErrorAction_of_type type JNull meta = Inl TypeError
   \<and> createErrorAction_of_type type JUndefined meta = Inl TypeError
   \<and> onRejected next actions meta JNull = ([], Failed TypeError)
   \<and> onRejected next actions meta JUndefined = ([], Failed TypeError)"
  by (simp add: createErrorAction_def createErrorAction_of_type_def onRejected_def toString_def
      get_prop_def and_then_def)

end
